theory Spec2Isabelle
  imports Main "HOL-Library.Sublist" "HOL-Library.Word"
begin

section \<open>Text primitives of the email worker\<close>

text \<open>
  The worker (\<^verbatim>\<open>src/index.ts\<close>) works on JavaScript strings. A string is modelled as
  a \<^typ>\<open>string\<close>, one \<^typ>\<open>char\<close> per code unit; the model therefore covers texts
  whose code units lie in U+0000..U+00FF, and on that range the character classes below
  are the ones of ECMAScript.
\<close>

abbreviation LF :: char where "LF \<equiv> CHR 0x0A"
abbreviation CR :: char where "CR \<equiv> CHR 0x0D"

definition is_space :: "char \<Rightarrow> bool" where
  \<comment> \<open>WhiteSpace and LineTerminator: what \<^verbatim>\<open>\s\<close> matches and \<^verbatim>\<open>trim()\<close> strips.\<close>
  "is_space c = (c \<in> {CHR 0x09, CHR 0x0A, CHR 0x0B, CHR 0x0C, CHR 0x0D, CHR 0x20, CHR 0xA0})"

definition trim :: "string \<Rightarrow> string" where
  \<comment> \<open>\<^verbatim>\<open>s.trim()\<close>\<close>
  "trim s = rev (dropWhile is_space (rev (dropWhile is_space s)))"

primrec str_includes :: "string \<Rightarrow> string \<Rightarrow> bool" where
  \<comment> \<open>\<^verbatim>\<open>s.includes(pat)\<close>\<close>
  "str_includes [] pat = (pat = [])"
| "str_includes (c # cs) pat = (if prefix pat (c # cs) then True else str_includes cs pat)"

fun join :: "string \<Rightarrow> string list \<Rightarrow> string" where
  \<comment> \<open>\<^verbatim>\<open>xs.join(sep)\<close>\<close>
  "join sep [] = []"
| "join sep [x] = x"
| "join sep (x # y # ys) = x @ sep @ join sep (y # ys)"

definition to_lower_char :: "char \<Rightarrow> char" where
  "to_lower_char c =
     (let n = (of_char c :: nat)
      in if (65 \<le> n \<and> n \<le> 90) \<or> (192 \<le> n \<and> n \<le> 222 \<and> n \<noteq> 215)
         then char_of (n + 32) else c)"

definition toLowerCase :: "string \<Rightarrow> string" where
  \<comment> \<open>\<^verbatim>\<open>s.toLowerCase()\<close>: A-Z and the capital letters of U+00C0..U+00DE.\<close>
  "toLowerCase s = map to_lower_char s"

definition canonicalize :: "char \<Rightarrow> char" where
  \<comment> \<open>Canonicalize of a regular expression with the \<^verbatim>\<open>i\<close> flag, as far as it decides a
      comparison with an ASCII pattern character: a-z become A-Z, and a code unit outside
      ASCII never canonicalizes to an ASCII one.\<close>
  "canonicalize c =
     (let n = (of_char c :: nat) in if 97 \<le> n \<and> n \<le> 122 then char_of (n - 32) else c)"

fun match_ci :: "string \<Rightarrow> string \<Rightarrow> string option" where
  \<comment> \<open>A literal ASCII pattern under the \<^verbatim>\<open>i\<close> flag, anchored at the head of the text;
      the result is the text left after the match.\<close>
  "match_ci [] s = Some s"
| "match_ci (p # ps) [] = None"
| "match_ci (p # ps) (c # cs) =
     (if canonicalize p = canonicalize c then match_ci ps cs else None)"

subsection \<open>The blank-line separator \<^verbatim>\<open>/\r?\n\r?\n/\<close>\<close>

definition eol :: "string \<Rightarrow> string option" where
  \<comment> \<open>\<^verbatim>\<open>\r?\n\<close> at the head of the text; the text after it.\<close>
  "eol s =
     (case s of
        [] \<Rightarrow> None
      | c # r \<Rightarrow>
          if c = LF then Some r
          else if c = CR then
            (case r of [] \<Rightarrow> None | d # r' \<Rightarrow> if d = LF then Some r' else None)
          else None)"

definition blank_line :: "string \<Rightarrow> string option" where
  \<comment> \<open>\<^verbatim>\<open>\r?\n\r?\n\<close> at the head of the text; the text after it.\<close>
  "blank_line s = (case eol s of None \<Rightarrow> None | Some r \<Rightarrow> eol r)"

lemma eol_shorter: "eol s = Some r \<Longrightarrow> length r < length s"
  by (auto simp: eol_def split: list.splits if_splits)

lemma blank_line_shorter: "blank_line s = Some r \<Longrightarrow> length r < length s"
  by (auto simp: blank_line_def split: option.splits dest!: eol_shorter)

function split_blank_from :: "string \<Rightarrow> string \<Rightarrow> string list" where
  \<comment> \<open>The loop of \<^verbatim>\<open>split\<close> with a regular expression: \<open>cur\<close> is the text since the
      last separator, the second argument the text still to scan.\<close>
  "split_blank_from cur [] = [cur]"
| "split_blank_from cur (c # cs) =
     (case blank_line (c # cs) of
        Some r \<Rightarrow> cur # split_blank_from [] r
      | None \<Rightarrow> split_blank_from (cur @ [c]) cs)"
  by pat_completeness auto
termination
  by (relation "measure (\<lambda>(cur, s). length s)") (auto dest: blank_line_shorter)

definition split_blank :: "string \<Rightarrow> string list" where
  \<comment> \<open>\<^verbatim>\<open>s.split(/\r?\n\r?\n/)\<close>\<close>
  "split_blank s = split_blank_from [] s"

subsection \<open>Splitting on a literal separator\<close>

function split_str_from :: "string \<Rightarrow> string \<Rightarrow> string \<Rightarrow> string list" where
  "split_str_from sep cur [] = [cur]"
| "split_str_from sep cur (c # cs) =
     (if sep \<noteq> [] \<and> prefix sep (c # cs)
      then cur # split_str_from sep [] (drop (length sep) (c # cs))
      else split_str_from sep (cur @ [c]) cs)"
  by pat_completeness auto
termination
  by (relation "measure (\<lambda>(sep, cur, s). length s)") (auto simp: neq_Nil_conv)

definition split_str :: "string \<Rightarrow> string \<Rightarrow> string list" where
  \<comment> \<open>\<^verbatim>\<open>s.split(sep)\<close> with a string separator; an empty separator splits into code units.\<close>
  "split_str sep s = (if sep = [] then map (\<lambda>c. [c]) s else split_str_from sep [] s)"

subsection \<open>The header patterns\<close>

definition type_token :: "string \<Rightarrow> string option" where
  \<comment> \<open>The group \<^verbatim>\<open>([^;\r\n]+)\<close> at the head of the text: the longest run, not empty.\<close>
  "type_token s =
     (let v = takeWhile (\<lambda>c. c \<notin> {CHR 0x3B, CR, LF}) s in if v = [] then None else Some v)"

fun ws_then_token :: "string \<Rightarrow> string option" where
  \<comment> \<open>\<^verbatim>\<open>\s*([^;\r\n]+)\<close>: the greedy star takes a space first and gives it back when the
      group then finds nothing.\<close>
  "ws_then_token [] = type_token []"
| "ws_then_token (c # cs) =
     (if is_space c
      then (case ws_then_token cs of Some v \<Rightarrow> Some v | None \<Rightarrow> type_token (c # cs))
      else type_token (c # cs))"

fun find_first :: "(string \<Rightarrow> 'a option) \<Rightarrow> string \<Rightarrow> 'a option" where
  \<comment> \<open>\<^verbatim>\<open>s.match(re)\<close> without the \<^verbatim>\<open>g\<close> flag: the match at the leftmost position.\<close>
  "find_first m [] = m []"
| "find_first m (c # cs) =
     (case m (c # cs) of Some v \<Rightarrow> Some v | None \<Rightarrow> find_first m cs)"

definition contentTypeMatch :: "string \<Rightarrow> string option" where
  \<comment> \<open>Group 1 of \<^verbatim>\<open>headers.match(/Content-Type:\s*([^;\r\n]+)/i)\<close>\<close>
  "contentTypeMatch headers =
     find_first (\<lambda>s. case match_ci ''Content-Type:'' s of
                        None \<Rightarrow> None | Some r \<Rightarrow> ws_then_token r) headers"

definition boundaryMatch :: "string \<Rightarrow> string option" where
  \<comment> \<open>Group 1 of \<^verbatim>\<open>headers.match(/boundary=([^;\r\n]+)/i)\<close>\<close>
  "boundaryMatch headers =
     find_first (\<lambda>s. case match_ci ''boundary='' s of
                        None \<Rightarrow> None | Some r \<Rightarrow> type_token r) headers"

definition resolve_contentType :: "string \<Rightarrow> string" where
  "resolve_contentType headers =
     (case contentTypeMatch headers of
        Some v \<Rightarrow> toLowerCase (trim v)
      | None \<Rightarrow> ''text/plain'')"

definition strip_quotes :: "string \<Rightarrow> string" where
  \<comment> \<open>\<^verbatim>\<open>.replace(/['"]/g, '')\<close>\<close>
  "strip_quotes s = filter (\<lambda>c. c \<notin> {CHR 0x27, CHR 0x22}) s"

section \<open>parseEmailBody: from the decoded text to the parsed content\<close>

record ParsedEmailContent =
  textBody :: string
  htmlBody :: "string option"
  contentType :: string

definition partHeaders :: "string \<Rightarrow> string" where
  \<comment> \<open>The first element of \<^verbatim>\<open>part.split(/\r?\n\r?\n/)\<close>; the split of a text is never the
      empty list (\<open>split_blank_nonempty\<close>).\<close>
  "partHeaders part = hd (split_blank part)"

definition partBody :: "string \<Rightarrow> string" where
  \<comment> \<open>\<^verbatim>\<open>partBodyParts.join('\n\n').trim()\<close>\<close>
  "partBody part = trim (join [LF, LF] (tl (split_blank part)))"

definition section_step :: "string \<times> string \<Rightarrow> string \<Rightarrow> string \<times> string" where
  \<comment> \<open>One round of the loop over the multipart sections; the state is the pair of the
      variables \<^verbatim>\<open>textBody\<close> and \<^verbatim>\<open>htmlBody\<close>.\<close>
  "section_step acc sec =
     (let part = trim sec in
      if part = [] \<or> part = ''--'' then acc
      else if str_includes (partHeaders part) ''text/plain'' then (partBody part, snd acc)
      else if str_includes (partHeaders part) ''text/html'' then (fst acc, partBody part)
      else acc)"

definition scan_sections :: "string list \<Rightarrow> string \<times> string" where
  "scan_sections parts = foldl section_step ([], []) parts"

definition single_part :: "string \<Rightarrow> string \<Rightarrow> ParsedEmailContent" where
  "single_part bodyContent ct =
     \<lparr>textBody = trim bodyContent, htmlBody = None, contentType = ct\<rparr>"

definition multipart :: "string \<Rightarrow> string \<Rightarrow> string \<Rightarrow> ParsedEmailContent" where
  \<comment> \<open>The branch taken once a boundary parameter has matched; \<open>b\<close> is its group 1.\<close>
  "multipart ct bodyContent b =
     (let boundary = strip_quotes b;
          parts = split_str (''--'' @ boundary) bodyContent;
          tb = fst (scan_sections parts);
          hb = snd (scan_sections parts)
      in \<lparr>textBody = (if tb \<noteq> [] then tb else if hb \<noteq> [] then hb else trim bodyContent),
          htmlBody = (if hb \<noteq> [] then Some hb else None),
          contentType = (if tb \<noteq> [] then ''text/plain''
                         else if hb \<noteq> [] then ''text/html'' else ct)\<rparr>)"

definition headers_of :: "string \<Rightarrow> string" where
  \<comment> \<open>\<^verbatim>\<open>const headers = parts[0]\<close>\<close>
  "headers_of rawText = hd (split_blank rawText)"

definition bodyContent_of :: "string \<Rightarrow> string" where
  \<comment> \<open>\<^verbatim>\<open>const bodyContent = parts.slice(1).join('\n\n')\<close>\<close>
  "bodyContent_of rawText = join [LF, LF] (tl (split_blank rawText))"

definition parseDecodedText :: "string \<Rightarrow> ParsedEmailContent" where
  \<comment> \<open>\<^verbatim>\<open>parseEmailBody\<close> from \<^verbatim>\<open>rawText.split\<close> on.\<close>
  "parseDecodedText rawText =
     (if length (split_blank rawText) < 2
      then \<lparr>textBody = trim rawText, htmlBody = None, contentType = ''text/plain''\<rparr>
      else
        (let headers = headers_of rawText;
             bodyContent = bodyContent_of rawText;
             ct = resolve_contentType headers
         in if str_includes ct ''multipart''
            then (case boundaryMatch headers of
                    Some b \<Rightarrow> multipart ct bodyContent b
                  | None \<Rightarrow> single_part bodyContent ct)
            else single_part bodyContent ct))"

section \<open>The data of the worker\<close>

record EmailAddress =
  email :: string
  name :: "string option"

record ContentPart =
  part_type :: string
  part_value :: string

record MailChannelsPayload =
  personalizations :: "EmailAddress list list"
  sender :: EmailAddress
  payload_subject :: string
  content :: "ContentPart list"

text \<open>
  In \<open>MailChannelsPayload\<close>, \<open>personalizations\<close> holds the \<^verbatim>\<open>to\<close> list of each
  personalization, \<open>sender\<close> is the field \<^verbatim>\<open>from\<close> and \<open>payload_subject\<close> the field
  \<^verbatim>\<open>subject\<close>; \<open>part_type\<close> and \<open>part_value\<close> are \<^verbatim>\<open>type\<close> and \<^verbatim>\<open>value\<close>.
\<close>

section \<open>parseEmailBody: from the stream to the decoded text\<close>

text \<open>
  A thrown JavaScript value is an \<^verbatim>\<open>Error\<close> with its message, or some other value. The
  raw stream is the list of the results of \<^verbatim>\<open>reader.read()\<close>: a chunk of bytes, or a
  rejection; the end of the list is \<^verbatim>\<open>done\<close>.
\<close>

datatype thrown = Error string | NonError

datatype read_result = Chunk "8 word list" | ReadFails thrown

text \<open>
  The calls the worker makes to its collaborators are recorded in order: taking the
  reader of the raw stream, releasing its lock, and the POST of a payload to the send
  collaborator.
\<close>

datatype event = GetReader | ReleaseLock | Post_request MailChannelsPayload

fun read_chunks :: "read_result list \<Rightarrow> 8 word list list \<Rightarrow> thrown + 8 word list list" where
  \<comment> \<open>The \<^verbatim>\<open>while (true)\<close> loop over \<^verbatim>\<open>reader.read()\<close>.\<close>
  "read_chunks [] chunks = Inr chunks"
| "read_chunks (Chunk v # rest) chunks = read_chunks rest (chunks @ [v])"
| "read_chunks (ReadFails e # rest) chunks = Inl e"

definition set_at :: "8 word list \<Rightarrow> 8 word list \<Rightarrow> nat \<Rightarrow> thrown + 8 word list" where
  \<comment> \<open>\<^verbatim>\<open>combined.set(chunk, offset)\<close>: a RangeError when the chunk does not fit.\<close>
  "set_at combined chunk offset =
     (if length combined < offset + length chunk then Inl (Error ''RangeError'')
      else Inr (take offset combined @ chunk @ drop (offset + length chunk) combined))"

fun copy_chunks :: "8 word list list \<Rightarrow> 8 word list \<Rightarrow> nat \<Rightarrow> thrown + 8 word list" where
  \<comment> \<open>The \<^verbatim>\<open>for (const chunk of chunks)\<close> loop.\<close>
  "copy_chunks [] combined offset = Inr combined"
| "copy_chunks (chunk # chunks) combined offset =
     (case set_at combined chunk offset of
        Inl e \<Rightarrow> Inl e
      | Inr combined' \<Rightarrow> copy_chunks chunks combined' (offset + length chunk))"

definition combine :: "8 word list list \<Rightarrow> thrown + 8 word list" where
  "combine chunks =
     (let totalLength = foldl (\<lambda>acc chunk. acc + length chunk) 0 chunks
      in copy_chunks chunks (replicate totalLength 0) 0)"

definition decode_chunks :: "(8 word list \<Rightarrow> string) \<Rightarrow> 8 word list list \<Rightarrow> thrown + string" where
  \<comment> \<open>\<^verbatim>\<open>rawText\<close>: the chunks combined, then decoded. \<open>decode\<close> stands for the platform's
      \<^verbatim>\<open>new TextDecoder().decode\<close>.\<close>
  "decode_chunks decode chunks =
     (case combine chunks of Inl e \<Rightarrow> Inl e | Inr combined \<Rightarrow> Inr (decode combined))"

definition parseEmailBody ::
  "(8 word list \<Rightarrow> string) \<Rightarrow> read_result list \<Rightarrow> (thrown + ParsedEmailContent) \<times> event list" where
  \<comment> \<open>The reader is taken, the stream is read, and the lock is released on every path
      (\<^verbatim>\<open>finally\<close>).\<close>
  "parseEmailBody decode rawStream =
     (case read_chunks rawStream [] of
        Inl e \<Rightarrow> (Inl e, [GetReader, ReleaseLock])
      | Inr chunks \<Rightarrow>
          (case decode_chunks decode chunks of
             Inl e \<Rightarrow> (Inl e, [GetReader, ReleaseLock])
           | Inr rawText \<Rightarrow> (Inr (parseDecodedText rawText), [GetReader, ReleaseLock])))"

section \<open>forwardEmail and the handler\<close>

text \<open>
  \<^verbatim>\<open>fetch\<close> rejects, or resolves to a response with a status and a body; reading the
  body with \<^verbatim>\<open>response.text()\<close> gives the text or rejects in turn.
\<close>

datatype read_or_failed = Failed thrown | Text_read string

record HttpResponse =
  status :: nat
  body_text :: read_or_failed

datatype fetch_outcome = Rejected thrown | Responded HttpResponse

record EmailMessage =
  from_addr :: EmailAddress
  to_addrs :: "EmailAddress list"
  cc :: "EmailAddress list option"
  bcc :: "EmailAddress list option"
  subject :: string
  raw :: "read_result list"
  rawSize :: nat

record Env =
  FORWARD_TO_EMAIL :: "string option"

record Response =
  resp_status :: nat
  resp_body :: string
  resp_headers :: "(string \<times> string) list"

text \<open>
  What the worker reads from its surroundings during one invocation: the two results of
  \<^verbatim>\<open>new Date().toISOString()\<close> in \<^verbatim>\<open>forwardEmail\<close>, the session identifier and the
  processing time of the handler.
\<close>

record ambient =
  date_in_text :: string
  date_in_html :: string
  sessionId :: string
  processingTime :: nat

definition ok :: "HttpResponse \<Rightarrow> bool" where
  \<comment> \<open>\<^verbatim>\<open>response.ok\<close>\<close>
  "ok r = (200 \<le> status r \<and> status r \<le> 299)"

fun show_nat :: "nat \<Rightarrow> string" where
  \<comment> \<open>A non-negative integer in a template literal: its decimal digits.\<close>
  "show_nat n =
     (if n < 10 then [char_of (48 + n)] else show_nat (n div 10) @ [char_of (48 + n mod 10)])"

declare show_nat.simps [simp del]

definition truthy :: "string option \<Rightarrow> bool" where
  \<comment> \<open>An optional string in a condition: defined and not empty.\<close>
  "truthy v = (case v of None \<Rightarrow> False | Some s \<Rightarrow> s \<noteq> [])"

definition address_text :: "EmailAddress \<Rightarrow> string" where
  "address_text addr =
     (if truthy (name addr) then the (name addr) @ '' <'' @ email addr @ ''>'' else email addr)"

definition address_html :: "EmailAddress \<Rightarrow> string" where
  "address_html addr =
     (if truthy (name addr) then the (name addr) @ '' &lt;'' @ email addr @ ''&gt;''
      else email addr)"

definition textContent :: "ambient \<Rightarrow> EmailMessage \<Rightarrow> ParsedEmailContent \<Rightarrow> string" where
  "textContent amb message parsedContent =
     trim ([LF] @ ''---------- Forwarded Message ----------'' @ [LF]
       @ ''From: '' @ address_text (from_addr message) @ [LF]
       @ ''To: '' @ join '', '' (map address_text (to_addrs message)) @ [LF]
       @ ''Subject: '' @ subject message @ [LF]
       @ ''Date: '' @ date_in_text amb @ [LF]
       @ [LF]
       @ textBody parsedContent @ [LF]
       @ ''  '')"

definition html_open :: string where
  \<comment> \<open>The HTML template from \<^verbatim>\<open><!DOCTYPE html>\<close> to the heading of the header block.\<close>
  "html_open =
     ''<!DOCTYPE html>'' @ [LF]
       @ ''<html>'' @ [LF]
       @ ''<head><title>Forwarded Message</title></head>'' @ [LF]
       @ ''<body>'' @ [LF]
       @ ''<div style='' @ [CHR 0x22]
       @ ''border-bottom: 2px solid #ccc; padding-bottom: 10px; margin-bottom: 20px;''
       @ [CHR 0x22] @ ''>'' @ [LF]
       @ ''<h3>Forwarded Message</h3>'' @ [LF]"

definition html_header_lines :: "ambient \<Rightarrow> EmailMessage \<Rightarrow> string" where
  \<comment> \<open>The four \<^verbatim>\<open><p>\<close> lines of the header block.\<close>
  "html_header_lines amb message =
     ''<p><strong>From:</strong> '' @ address_html (from_addr message) @ ''</p>'' @ [LF]
       @ ''<p><strong>To:</strong> '' @ join '', '' (map address_html (to_addrs message))
       @ ''</p>'' @ [LF]
       @ ''<p><strong>Subject:</strong> '' @ subject message @ ''</p>'' @ [LF]
       @ ''<p><strong>Date:</strong> '' @ date_in_html amb @ ''</p>'' @ [LF]"

definition html_head :: "ambient \<Rightarrow> EmailMessage \<Rightarrow> string" where
  \<comment> \<open>The template up to the \<^verbatim>\<open><div>\<close> that opens the body.\<close>
  "html_head amb message =
     html_open @ html_header_lines amb message @ ''</div>'' @ [LF] @ ''<div>''"

definition html_tail :: string where
  "html_tail = ''</div>'' @ [LF] @ ''</body>'' @ [LF] @ ''</html>''"

definition htmlContent :: "ambient \<Rightarrow> EmailMessage \<Rightarrow> string \<Rightarrow> string" where
  "htmlContent amb message html =
     trim ([LF] @ html_head amb message @ html @ html_tail @ [LF] @ ''    '')"

definition compose_payload ::
  "ambient \<Rightarrow> EmailMessage \<Rightarrow> string \<Rightarrow> ParsedEmailContent \<Rightarrow> MailChannelsPayload" where
  \<comment> \<open>\<^verbatim>\<open>forwardEmail\<close> from \<^verbatim>\<open>const content = []\<close> to \<^verbatim>\<open>const payload\<close>.\<close>
  "compose_payload amb message forwardToEmail parsedContent =
     \<lparr>personalizations = [[\<lparr>email = forwardToEmail, name = None\<rparr>]],
      sender = \<lparr>email = email (from_addr message),
                name = (if truthy (name (from_addr message)) then name (from_addr message)
                        else None)\<rparr>,
      payload_subject = ''[Forwarded] '' @ subject message,
      content =
        \<lparr>part_type = ''text/plain'', part_value = textContent amb message parsedContent\<rparr>
        # (if truthy (htmlBody parsedContent)
           then [\<lparr>part_type = ''text/html'',
                  part_value = htmlContent amb message (the (htmlBody parsedContent))\<rparr>]
           else [])\<rparr>"

definition send_payload ::
  "(MailChannelsPayload \<Rightarrow> fetch_outcome) \<Rightarrow> MailChannelsPayload \<Rightarrow> thrown + unit" where
  \<comment> \<open>The \<^verbatim>\<open>try\<close> block around \<^verbatim>\<open>fetch\<close>; the \<^verbatim>\<open>catch\<close> throws what it caught.\<close>
  "send_payload fetch payload =
     (case fetch payload of
        Rejected e \<Rightarrow> Inl e
      | Responded response \<Rightarrow>
          if \<not> ok response then
            (case body_text response of
               Failed e \<Rightarrow> Inl e
             | Text_read errorText \<Rightarrow>
                 Inl (Error (''MailChannels API failed: '' @ show_nat (status response)
                              @ '' - '' @ errorText)))
          else (case body_text response of Failed e \<Rightarrow> Inl e | Text_read successText \<Rightarrow> Inr ()))"

definition forwardEmail ::
  "(8 word list \<Rightarrow> string) \<Rightarrow> (MailChannelsPayload \<Rightarrow> fetch_outcome) \<Rightarrow> ambient
     \<Rightarrow> EmailMessage \<Rightarrow> string \<Rightarrow> (thrown + unit) \<times> event list" where
  "forwardEmail decode fetch amb message forwardToEmail =
     (case parseEmailBody decode (raw message) of
        (Inl e, evs) \<Rightarrow> (Inl e, evs)
      | (Inr parsedContent, evs) \<Rightarrow>
          (let payload = compose_payload amb message forwardToEmail parsedContent
           in (send_payload fetch payload, evs @ [Post_request payload])))"

definition config_error :: Response where
  "config_error =
     \<lparr>resp_status = 500,
      resp_body = ''Configuration error: FORWARD_TO_EMAIL environment variable not set'',
      resp_headers = [(''Content-Type'', ''text/plain'')]\<rparr>"

definition email_handler ::
  "(8 word list \<Rightarrow> string) \<Rightarrow> (MailChannelsPayload \<Rightarrow> fetch_outcome) \<Rightarrow> ambient
     \<Rightarrow> EmailMessage \<Rightarrow> Env \<Rightarrow> Response \<times> event list" where
  \<comment> \<open>The handler \<^verbatim>\<open>email\<close>: its response, and the calls it made to the stream and to
      the send collaborator.\<close>
  "email_handler decode fetch amb message env =
     (if \<not> truthy (FORWARD_TO_EMAIL env) then (config_error, [])
      else
        (case forwardEmail decode fetch amb message (the (FORWARD_TO_EMAIL env)) of
           (Inr u, evs) \<Rightarrow>
             (\<lparr>resp_status = 200,
               resp_body = ''Email processed and forwarded successfully'',
               resp_headers =
                 [(''Content-Type'', ''text/plain''),
                  (''X-Session-ID'', sessionId amb),
                  (''X-Processing-Time'', show_nat (processingTime amb) @ ''ms'')]\<rparr>, evs)
         | (Inl error, evs) \<Rightarrow>
             (\<lparr>resp_status = 500,
               resp_body = ''Email processing failed: ''
                 @ (case error of Error message \<Rightarrow> message | NonError \<Rightarrow> ''Unknown error''),
               resp_headers =
                 [(''Content-Type'', ''text/plain''),
                  (''X-Session-ID'', sessionId amb),
                  (''X-Processing-Time'', show_nat (processingTime amb) @ ''ms''),
                  (''X-Error'', ''true'')]\<rparr>, evs)))"

section \<open>Notions of the specification\<close>

definition blank_line_boundaries :: "string list" where
  \<comment> \<open>A line terminator, CR-LF or LF, repeated twice.\<close>
  "blank_line_boundaries = [t1 @ t2. t1 \<leftarrow> [[CR, LF], [LF]], t2 \<leftarrow> [[CR, LF], [LF]]]"

definition has_blank_line :: "string \<Rightarrow> bool" where
  \<comment> \<open>The text contains a blank-line boundary somewhere.\<close>
  "has_blank_line s = list_ex (\<lambda>sep. sublist sep s) blank_line_boundaries"

definition original_body :: "string \<Rightarrow> string" where
  \<comment> \<open>The body of the message: the body block, or the whole text when the text has no
      blank-line boundary and is taken as body.\<close>
  "original_body rawText = (if has_blank_line rawText then bodyContent_of rawText else rawText)"




definition html_escape :: "string \<Rightarrow> string" where
  \<comment> \<open>The characters \<^verbatim>\<open>&\<close>, \<^verbatim>\<open><\<close> and \<^verbatim>\<open>>\<close> replaced by their entities.\<close>
  "html_escape s =
     concat (map (\<lambda>c. if c = CHR ''&'' then ''&amp;'' else if c = CHR ''<'' then ''&lt;''
                       else if c = CHR ''>'' then ''&gt;'' else [c]) s)"

definition escaped_address_html :: "EmailAddress \<Rightarrow> string" where
  \<comment> \<open>An address of the header block as the specification describes it: name and address
      text escaped, the angle brackets around the address written as entities.\<close>
  "escaped_address_html addr =
     (if truthy (name addr)
      then html_escape (the (name addr)) @ '' &lt;'' @ html_escape (email addr) @ ''&gt;''
      else html_escape (email addr))"

section \<open>Concrete inputs\<close>

definition decode_ascii :: "8 word list \<Rightarrow> string" where
  \<comment> \<open>The decoder on bytes below 0x80, where UTF-8 is ASCII; used for the examples.\<close>
  "decode_ascii bytes = map (\<lambda>b. char_of (unat b)) bytes"

definition example_message :: EmailMessage where
  "example_message =
     \<lparr>from_addr = \<lparr>email = ''a@x.org'', name = Some ''<b>''\<rparr>,
      to_addrs = [\<lparr>email = ''b@y.org'', name = None\<rparr>,
                  \<lparr>email = ''c@y.org'', name = Some ''Cee''\<rparr>],
      cc = None, bcc = None, subject = ''Hi'',
      raw = [Chunk [0x68, 0x69]], rawSize = 2\<rparr>"

definition example_ambient :: ambient where
  "example_ambient =
     \<lparr>date_in_text = ''2024-01-01T00:00:00.000Z'', date_in_html = ''2024-01-01T00:00:00.001Z'',
      sessionId = ''email_1_abc'', processingTime = 12\<rparr>"

definition fetch_503 :: "MailChannelsPayload \<Rightarrow> fetch_outcome" where
  "fetch_503 payload = Responded \<lparr>status = 503, body_text = Text_read ''down''\<rparr>"

definition roundtrip_text :: string where
  "roundtrip_text =
     ''Content-Type: multipart/mixed; boundary=XYZ'' @ [CR, LF, CR, LF]
     @ ''--XYZ'' @ [CR, LF] @ ''Content-Type: text/plain'' @ [CR, LF, CR, LF]
     @ ''Hello'' @ [CR, LF]
     @ ''--XYZ'' @ [CR, LF] @ ''Content-Type: text/html'' @ [CR, LF, CR, LF]
     @ ''<b>Hi</b>'' @ [CR, LF]
     @ ''--XYZ--''"



definition no_boundary_text :: string where
  "no_boundary_text =
     ''Subject: x'' @ [CR, LF] @ ''content-type:  Multipart/Mixed '' @ [CR, LF, CR, LF]
     @ '' one'' @ [LF, LF] @ ''--X two ''"

definition blank_body_text :: string where
  "blank_body_text = ''Subject: x'' @ [LF, LF] @ ''   ''"

definition example_parsed :: ParsedEmailContent where
  "example_parsed =
     \<lparr>textBody = ''x'', htmlBody = Some ''<i>x</i>'', contentType = ''text/html''\<rparr>"

definition example_env :: Env where
  "example_env = \<lparr>FORWARD_TO_EMAIL = Some ''f@z.org''\<rparr>"

definition plain_hi :: ParsedEmailContent where
  \<comment> \<open>What the parser returns for the stream of \<open>example_message\<close>.\<close>
  "plain_hi = \<lparr>textBody = ''hi'', htmlBody = None, contentType = ''text/plain''\<rparr>"

section \<open>Facts about the text primitives\<close>

lemma str_includes_sublist: "str_includes s pat = sublist pat s"
  by (induction s) (auto simp: sublist_Cons_right)

lemma blank_line_prefix:
  "(blank_line s \<noteq> None) = list_ex (\<lambda>sep. prefix sep s) blank_line_boundaries"
  by (auto simp: blank_line_def eol_def blank_line_boundaries_def prefix_Cons
      split: list.splits option.splits if_splits)

lemma has_blank_line_Nil: "\<not> has_blank_line []"
  by (simp add: has_blank_line_def blank_line_boundaries_def)

lemma has_blank_line_Cons:
  "has_blank_line (c # cs) = (blank_line (c # cs) \<noteq> None \<or> has_blank_line cs)"
  unfolding blank_line_prefix
  by (auto simp: has_blank_line_def blank_line_boundaries_def sublist_Cons_right)

lemma split_blank_from_none:
  "\<not> has_blank_line s \<Longrightarrow> split_blank_from cur s = [cur @ s]"
  by (induction s arbitrary: cur) (auto simp: has_blank_line_Nil has_blank_line_Cons)

lemma split_blank_from_nonempty: "split_blank_from cur s \<noteq> []"
  by (induction cur s rule: split_blank_from.induct) (auto split: option.splits)

lemma split_blank_nonempty: "split_blank s \<noteq> []"
  by (simp add: split_blank_def split_blank_from_nonempty)

lemma split_blank_from_some:
  "has_blank_line s \<Longrightarrow> 2 \<le> length (split_blank_from cur s)"
proof (induction cur s rule: split_blank_from.induct)
  case (1 cur)
  then show ?case by (simp add: has_blank_line_Nil)
next
  case (2 cur c cs)
  show ?case
  proof (cases "blank_line (c # cs)")
    case None
    with 2 show ?thesis by (simp add: has_blank_line_Cons)
  next
    case (Some r)
    with split_blank_from_nonempty [of "[]" r] show ?thesis
      by (cases "split_blank_from [] r") auto
  qed
qed

lemma split_blank_length: "(length (split_blank s) < 2) = (\<not> has_blank_line s)"
  using split_blank_from_none [of s "[]"] split_blank_from_some [of s "[]"]
  by (auto simp: split_blank_def)

lemma match_ci_prefix:
  "match_ci p s = Some r \<Longrightarrow> prefix (map canonicalize p) (map canonicalize s)"
  by (induction p s rule: match_ci.induct) (auto split: if_splits)

lemma find_first_suffix: "find_first m s = Some v \<Longrightarrow> \<exists>t. suffix t s \<and> m t = Some v"
  by (induction s) (auto split: option.splits simp: suffix_Cons)

lemma prefix_suffix_sublist:
  assumes "prefix p (map f t)" "suffix t s"
  shows "sublist p (map f s)"
proof -
  from assms(1) obtain ss where "map f t = p @ ss" by (auto simp: prefix_def)
  moreover from assms(2) obtain pre where "s = pre @ t" by (auto simp: suffix_def)
  ultimately have "map f s = map f pre @ p @ ss" by simp
  then show ?thesis unfolding sublist_def by blast
qed

lemma boundaryMatch_absent:
  assumes "\<not> sublist (map canonicalize ''boundary='') (map canonicalize headers)"
  shows "boundaryMatch headers = None"
proof (rule ccontr)
  assume "boundaryMatch headers \<noteq> None"
  then obtain v where "boundaryMatch headers = Some v" by auto
  then obtain t where t: "suffix t headers" and m: "match_ci ''boundary='' t \<noteq> None"
    unfolding boundaryMatch_def by (auto dest!: find_first_suffix split: option.splits)
  from m obtain r where "match_ci ''boundary='' t = Some r" by auto
  then have "prefix (map canonicalize ''boundary='') (map canonicalize t)"
    by (rule match_ci_prefix)
  then have "sublist (map canonicalize ''boundary='') (map canonicalize headers)"
    using t by (rule prefix_suffix_sublist)
  with assms show False by blast
qed

lemma trim_framed:
  assumes "s \<noteq> []" "\<not> is_space (hd s)" "\<not> is_space (last s)"
    and "\<forall>c\<in>set w1. is_space c" "\<forall>c\<in>set w2. is_space c"
  shows "trim (w1 @ s @ w2) = s"
proof -
  obtain a s' where s: "s = a # s'" using assms(1) by (cases s) auto
  have front: "dropWhile is_space (w1 @ s @ w2) = s @ w2"
    using assms s by (simp add: dropWhile_append3)
  obtain b r where r: "rev s = b # r" using assms(1) by (cases "rev s") auto
  have "b = last s" using r assms(1) by (metis list.sel(1) hd_rev)
  then have nb: "\<not> is_space b" using assms(3) by simp
  have rear: "dropWhile is_space (rev w2 @ rev s) = rev s"
    using assms nb r by (simp add: dropWhile_append3)
  show ?thesis unfolding trim_def front by (simp add: rear)
qed

lemma trim_empty_iff: "(trim s = []) = (\<forall>c\<in>set s. is_space c)"
proof
  assume "trim s = []"
  then have all: "\<forall>x\<in>set (dropWhile is_space s). is_space x"
    by (simp add: trim_def)
  have "dropWhile is_space s = []"
  proof (rule ccontr)
    assume ne: "dropWhile is_space s \<noteq> []"
    then have "\<not> is_space (hd (dropWhile is_space s))" by (rule hd_dropWhile)
    moreover have "hd (dropWhile is_space s) \<in> set (dropWhile is_space s)" using ne by simp
    ultimately show False using all by blast
  qed
  then show "\<forall>c\<in>set s. is_space c" by simp
next
  assume "\<forall>c\<in>set s. is_space c"
  then have d: "dropWhile is_space s = []" by simp
  show "trim s = []" unfolding trim_def d by simp
qed

section \<open>The byte assembler\<close>

lemma copy_chunks_concat:
  "offset + length (concat chunks) \<le> length combined \<Longrightarrow>
   copy_chunks chunks combined offset =
     Inr (take offset combined @ concat chunks
          @ drop (offset + length (concat chunks)) combined)"
proof (induction chunks arbitrary: combined offset)
  case Nil
  then show ?case by simp
next
  case (Cons chunk chunks)
  let ?c' = "take offset combined @ chunk @ drop (offset + length chunk) combined"
  have fit: "\<not> length combined < offset + length chunk" using Cons.prems by simp
  have len: "length ?c' = length combined" using Cons.prems by simp
  have "copy_chunks (chunk # chunks) combined offset
      = copy_chunks chunks ?c' (offset + length chunk)"
    using fit by (simp add: set_at_def)
  also have "\<dots> = Inr (take (offset + length chunk) ?c' @ concat chunks
        @ drop (offset + length chunk + length (concat chunks)) ?c')"
    using Cons.prems len by (intro Cons.IH) simp
  also have "take (offset + length chunk) ?c' = take offset combined @ chunk"
    using Cons.prems by simp
  also have "drop (offset + length chunk + length (concat chunks)) ?c'
      = drop (offset + length (concat (chunk # chunks))) combined"
    using Cons.prems by (simp add: algebra_simps)
  finally show ?case by simp
qed

lemma total_length:
  "foldl (\<lambda>acc chunk. acc + length chunk) n chunks = n + length (concat chunks)"
  by (induction chunks arbitrary: n) auto

lemma combine_concat: "combine chunks = Inr (concat chunks)"
  using copy_chunks_concat [of 0 chunks "replicate (length (concat chunks)) 0"]
  by (simp add: combine_def total_length)

lemma read_chunks_all: "read_chunks (map Chunk cs) acc = Inr (acc @ cs)"
  by (induction cs arbitrary: acc) auto

lemma decode_chunks_concat: "decode_chunks decode chunks = Inr (decode (concat chunks))"
  by (simp add: decode_chunks_def combine_concat)

lemma parseEmailBody_chunks:
  "parseEmailBody decode (map Chunk chunks) =
     (Inr (parseDecodedText (decode (concat chunks))), [GetReader, ReleaseLock])"
  using read_chunks_all [of chunks "[]"]
  by (simp add: parseEmailBody_def decode_chunks_concat)

text \<open>
  C10: the chunks are copied one after the other into one buffer, which is decoded once.
  Two streams of chunks with the same concatenation therefore give the same decoded
  text and the same parsed content, whatever the decoder.
\<close>

theorem chunking_independent:
  "concat chunks1 = concat chunks2 \<Longrightarrow>
   decode_chunks decode chunks1 = decode_chunks decode chunks2
   \<and> parseEmailBody decode (map Chunk chunks1) = parseEmailBody decode (map Chunk chunks2)"
  by (simp add: decode_chunks_concat parseEmailBody_chunks)

theorem chunking_independent_witness:
  "concat [[0x68], [0x69, 0x0A :: 8 word]] = concat [[0x68, 0x69], [], [0x0A]]
   \<and> decode_chunks decode_ascii [[0x68], [0x69, 0x0A]]
       = decode_chunks decode_ascii [[0x68, 0x69], [], [0x0A]]
   \<and> parseEmailBody decode_ascii (map Chunk [[0x68], [0x69, 0x0A]])
       = parseEmailBody decode_ascii (map Chunk [[0x68, 0x69], [], [0x0A]])"
proof -
  have h: "concat [[0x68], [0x69, 0x0A :: 8 word]] = concat [[0x68, 0x69], [], [0x0A]]"
    by simp
  show ?thesis using chunking_independent [OF h, of decode_ascii] by simp
qed

section \<open>The header and body splitter\<close>

text \<open>
  C3: a decoded text with no blank-line boundary (no two line terminators, each CR-LF or
  LF, in a row) is returned whole: \<open>textBody\<close> is the trimmed text, the content type is
  \<^verbatim>\<open>text/plain\<close> and there is no \<open>htmlBody\<close>, whatever header lines or multipart
  markers the text holds.
\<close>

theorem no_blank_line_fallback:
  "\<not> has_blank_line rawText \<Longrightarrow>
   parseDecodedText rawText =
     \<lparr>textBody = trim rawText, htmlBody = None, contentType = ''text/plain''\<rparr>"
  by (simp add: parseDecodedText_def split_blank_length)

theorem no_blank_line_fallback_witness:
  "\<not> has_blank_line ('' Content-Type: multipart/mixed; boundary=X'' @ [LF] @ ''--X'' @ [CR, LF])
   \<and> parseDecodedText ('' Content-Type: multipart/mixed; boundary=X'' @ [LF] @ ''--X'' @ [CR, LF])
     = \<lparr>textBody = ''Content-Type: multipart/mixed; boundary=X'' @ [LF] @ ''--X'',
        htmlBody = None, contentType = ''text/plain''\<rparr>"
proof -
  let ?w = "'' Content-Type: multipart/mixed; boundary=X'' @ [LF] @ ''--X'' @ [CR, LF]"
  have h: "\<not> has_blank_line ?w" by code_simp
  have t: "trim ?w = ''Content-Type: multipart/mixed; boundary=X'' @ [LF] @ ''--X''"
    by code_simp
  show ?thesis using h no_blank_line_fallback [OF h] t by simp
qed

lemma parse_single:
  assumes "has_blank_line rawText"
    and "\<not> str_includes (resolve_contentType (headers_of rawText)) ''multipart''
         \<or> boundaryMatch (headers_of rawText) = None"
  shows "parseDecodedText rawText =
     single_part (bodyContent_of rawText) (resolve_contentType (headers_of rawText))"
  using assms by (auto simp: parseDecodedText_def split_blank_length Let_def)


section \<open>The content-type resolver\<close>

text \<open>
  C4: when the text has a header block, the resolved content type contains
  \<^verbatim>\<open>multipart\<close> and the boundary pattern finds no parameter in the header block, the
  body is not split into sections: \<open>textBody\<close> is the trimmed body block, there is no
  \<open>htmlBody\<close> and the content type is the declared one. By \<open>boundaryMatch_absent\<close> the
  pattern finds nothing, in particular, when \<^verbatim>\<open>boundary=\<close> occurs nowhere in the header
  block in any letter case.
\<close>

theorem multipart_without_boundary:
  assumes "has_blank_line rawText"
    and "str_includes (resolve_contentType (headers_of rawText)) ''multipart''"
    and "boundaryMatch (headers_of rawText) = None"
  shows "parseDecodedText rawText =
     \<lparr>textBody = trim (bodyContent_of rawText), htmlBody = None,
      contentType = resolve_contentType (headers_of rawText)\<rparr>"
  using assms by (simp add: parse_single single_part_def)

theorem multipart_without_boundary_witness:
  "has_blank_line no_boundary_text
   \<and> parseDecodedText no_boundary_text =
       \<lparr>textBody = ''one'' @ [LF, LF] @ ''--X two'', htmlBody = None,
        contentType = ''multipart/mixed''\<rparr>"
proof -
  have h1: "has_blank_line no_boundary_text" by code_simp
  have h2: "str_includes (resolve_contentType (headers_of no_boundary_text)) ''multipart''"
    by code_simp
  have h3: "boundaryMatch (headers_of no_boundary_text) = None" by code_simp
  have b: "trim (bodyContent_of no_boundary_text) = ''one'' @ [LF, LF] @ ''--X two''" by code_simp
  have c: "resolve_contentType (headers_of no_boundary_text) = ''multipart/mixed''" by code_simp
  show ?thesis using h1 multipart_without_boundary [OF h1 h2 h3] b c by simp
qed

section \<open>The multipart disassembler\<close>











section \<open>The invariant of the parsed content\<close>

lemma textBody_cases:
  "textBody (parseDecodedText t) = trim (original_body t)
   \<or> textBody (parseDecodedText t) \<noteq> []"
  by (auto simp: parseDecodedText_def split_blank_length original_body_def single_part_def
      multipart_def Let_def split: option.splits)

lemma htmlBody_not_empty: "htmlBody (parseDecodedText t) \<noteq> Some []"
  by (auto simp: parseDecodedText_def single_part_def multipart_def Let_def split: option.splits)

text \<open>
  C7, as stated, fails: the body block of \<open>blank_body_text\<close> is three spaces, which is
  not empty, and the parser returns the empty \<open>textBody\<close>.
\<close>

theorem decoded_content_counterexample:
  "original_body blank_body_text = ''   '' \<and> textBody (parseDecodedText blank_body_text) = []"
  by code_simp

text \<open>
  C7, amended: \<open>textBody\<close> is not empty whenever the original body, trimmed, is not
  empty (the body holds a character that is not white space); and \<open>htmlBody\<close>, when
  present, is not the empty string.
\<close>

theorem decoded_content_invariant:
  "(trim (original_body rawText) \<noteq> [] \<longrightarrow> textBody (parseDecodedText rawText) \<noteq> [])
   \<and> htmlBody (parseDecodedText rawText) \<noteq> Some []"
  using textBody_cases [of rawText] htmlBody_not_empty [of rawText] by auto

theorem decoded_content_invariant_witness:
  "trim (original_body roundtrip_text) \<noteq> []
   \<and> textBody (parseDecodedText roundtrip_text) \<noteq> []
   \<and> htmlBody (parseDecodedText roundtrip_text) \<noteq> Some []"
proof -
  have h: "trim (original_body roundtrip_text) \<noteq> []" by code_simp
  show ?thesis using h decoded_content_invariant [of roundtrip_text] by simp
qed

section \<open>The forward-message composer\<close>

lemma parseEmailBody_events: "snd (parseEmailBody decode rs) = [GetReader, ReleaseLock]"
  by (simp add: parseEmailBody_def split: sum.splits)

lemma parseEmailBody_Inr:
  "fst (parseEmailBody decode rs) = Inr parsed \<Longrightarrow> \<exists>t. parsed = parseDecodedText t"
  by (auto simp: parseEmailBody_def split: sum.splits)

lemma parsed_truthy:
  "fst (parseEmailBody decode rs) = Inr parsed \<Longrightarrow> truthy (htmlBody parsed) = (htmlBody parsed \<noteq> None)"
  using htmlBody_not_empty by (auto simp: truthy_def dest!: parseEmailBody_Inr split: option.splits)

lemma forwardEmail_events:
  "fst (parseEmailBody decode (raw message)) = Inr parsed \<Longrightarrow>
   forwardEmail decode fetch amb message fwd =
     (send_payload fetch (compose_payload amb message fwd parsed),
      [GetReader, ReleaseLock, Post_request (compose_payload amb message fwd parsed)])"
  using parseEmailBody_events [of decode "raw message"]
  by (cases "parseEmailBody decode (raw message)") (simp add: forwardEmail_def Let_def)

text \<open>
  C5: for every message whose stream is read to its end, the payload composed from the
  parsed content, which is the payload handed to the send collaborator, has exactly one
  content part of type \<^verbatim>\<open>text/plain\<close>, and it has a part of type \<^verbatim>\<open>text/html\<close> if and
  only if the parser resolved an \<open>htmlBody\<close>.
\<close>

theorem payload_content_parts:
  assumes "fst (parseEmailBody decode (raw message)) = Inr parsed"
  shows "length (filter (\<lambda>p. part_type p = ''text/plain'')
                   (content (compose_payload amb message fwd parsed))) = 1
       \<and> list_ex (\<lambda>p. part_type p = ''text/html'')
                   (content (compose_payload amb message fwd parsed))
           = (htmlBody parsed \<noteq> None)
       \<and> snd (forwardEmail decode fetch amb message fwd)
           = [GetReader, ReleaseLock, Post_request (compose_payload amb message fwd parsed)]"
  using parsed_truthy [OF assms]
  by (simp add: compose_payload_def forwardEmail_events [OF assms])

theorem payload_content_parts_witness:
  "fst (parseEmailBody decode_ascii (raw example_message)) = Inr plain_hi
   \<and> length (filter (\<lambda>p. part_type p = ''text/plain'')
        (content (compose_payload example_ambient example_message ''f@z.org'' plain_hi))) = 1
   \<and> list_ex (\<lambda>p. part_type p = ''text/html'')
        (content (compose_payload example_ambient example_message ''f@z.org'' plain_hi))
       = (htmlBody plain_hi \<noteq> None)"
proof -
  have h: "fst (parseEmailBody decode_ascii (raw example_message)) = Inr plain_hi"
    by code_simp
  show ?thesis
    using h payload_content_parts [OF h, of example_ambient "''f@z.org''" fetch_503]
    by simp
qed

lemma html_head_hd: "html_head amb message \<noteq> [] \<and> hd (html_head amb message) = CHR ''<''"
  by (simp add: html_head_def html_open_def)

lemma html_tail_last: "html_tail \<noteq> [] \<and> last html_tail = CHR ''>''"
  by (simp add: html_tail_def)

lemma htmlContent_verbatim:
  "htmlContent amb message html = html_head amb message @ html @ html_tail"
proof -
  let ?s = "html_head amb message @ html @ html_tail"
  have ne: "?s \<noteq> []" using html_head_hd [of amb message] by simp
  have "hd ?s = CHR ''<''" using html_head_hd [of amb message] by simp
  then have first: "\<not> is_space (hd ?s)" by (simp add: is_space_def)
  have "last ?s = CHR ''>''" using html_tail_last by simp
  then have final: "\<not> is_space (last ?s)" by (simp add: is_space_def)
  have "trim ([LF] @ ?s @ ([LF] @ ''    '')) = ?s"
    by (rule trim_framed [OF ne first final]) (simp_all add: is_space_def)
  then show ?thesis by (simp add: htmlContent_def)
qed

lemma from_line_in_head:
  "sublist (''<p><strong>From:</strong> '' @ address_html (from_addr message) @ ''</p>'')
     (html_head amb message)"
proof -
  have "html_head amb message =
      html_open @ (''<p><strong>From:</strong> '' @ address_html (from_addr message) @ ''</p>'')
      @ ([LF] @ ''<p><strong>To:</strong> '' @ join '', '' (map address_html (to_addrs message))
         @ ''</p>'' @ [LF]
         @ ''<p><strong>Subject:</strong> '' @ subject message @ ''</p>'' @ [LF]
         @ ''<p><strong>Date:</strong> '' @ date_in_html amb @ ''</p>'' @ [LF]
         @ ''</div>'' @ [LF] @ ''<div>'')"
    by (simp add: html_head_def html_header_lines_def)
  then show ?thesis unfolding sublist_def by blast
qed

lemma to_line_in_head:
  "sublist (''<p><strong>To:</strong> '' @ join '', '' (map address_html (to_addrs message))
            @ ''</p>'')
     (html_head amb message)"
proof -
  have "html_head amb message =
      (html_open @ ''<p><strong>From:</strong> '' @ address_html (from_addr message) @ ''</p>''
        @ [LF])
      @ (''<p><strong>To:</strong> '' @ join '', '' (map address_html (to_addrs message))
         @ ''</p>'')
      @ ([LF] @ ''<p><strong>Subject:</strong> '' @ subject message @ ''</p>'' @ [LF]
         @ ''<p><strong>Date:</strong> '' @ date_in_html amb @ ''</p>'' @ [LF]
         @ ''</div>'' @ [LF] @ ''<div>'')"
    by (simp add: html_head_def html_header_lines_def)
  then show ?thesis unfolding sublist_def by blast
qed

lemma address_html_cases:
  "address_html = (\<lambda>addr. if truthy (name addr)
      then the (name addr) @ '' &lt;'' @ email addr @ ''&gt;'' else email addr)"
  by (rule ext) (simp add: address_html_def)

text \<open>
  C6, as stated, fails: the sender of \<open>example_message\<close> has the display name
  \<^verbatim>\<open><b>\<close>, and the header block of the HTML envelope holds that name as it is, not
  with its angle brackets replaced by entities.
\<close>

theorem html_envelope_counterexample:
  "htmlBody example_parsed = Some ''<i>x</i>''
   \<and> sublist (''<p><strong>From:</strong> <b> &lt;a@x.org&gt;</p>'')
        (part_value (content (compose_payload example_ambient example_message ''f@z.org'' example_parsed) ! 1))
   \<and> \<not> sublist (''<p><strong>From:</strong> '' @ escaped_address_html (from_addr example_message) @ ''</p>'')
        (part_value (content (compose_payload example_ambient example_message ''f@z.org'' example_parsed) ! 1))"
  by code_simp

text \<open>
  C6, amended: for every parsed content with an \<open>htmlBody\<close>, the HTML part is the
  template with the \<open>htmlBody\<close> embedded as it is between \<^verbatim>\<open><div>\<close> and \<^verbatim>\<open></div>\<close>. In
  the header block the angle brackets that the template puts around an address are
  written \<^verbatim>\<open>&lt;\<close> and \<^verbatim>\<open>&gt;\<close>; the name and the address themselves are embedded as
  they are.
\<close>

theorem html_envelope:
  assumes "htmlBody parsed = Some html" and "html \<noteq> []"
  shows "content (compose_payload amb message fwd parsed) =
           [\<lparr>part_type = ''text/plain'', part_value = textContent amb message parsed\<rparr>,
            \<lparr>part_type = ''text/html'',
             part_value = html_head amb message @ html @ html_tail\<rparr>]
       \<and> sublist (''<p><strong>From:</strong> ''
                   @ (if truthy (name (from_addr message))
                      then the (name (from_addr message)) @ '' &lt;''
                           @ email (from_addr message) @ ''&gt;''
                      else email (from_addr message))
                   @ ''</p>'')
                  (html_head amb message)
       \<and> sublist (''<p><strong>To:</strong> ''
                   @ join '', ''
                       (map (\<lambda>addr. if truthy (name addr)
                                     then the (name addr) @ '' &lt;'' @ email addr @ ''&gt;''
                                     else email addr)
                            (to_addrs message))
                   @ ''</p>'')
                  (html_head amb message)"
proof -
  have parts: "content (compose_payload amb message fwd parsed) =
           [\<lparr>part_type = ''text/plain'', part_value = textContent amb message parsed\<rparr>,
            \<lparr>part_type = ''text/html'',
             part_value = html_head amb message @ html @ html_tail\<rparr>]"
    using assms by (simp add: compose_payload_def truthy_def htmlContent_verbatim)
  show ?thesis
    using parts from_line_in_head [of message amb] to_line_in_head [of message amb]
    unfolding address_html_cases by simp
qed

theorem html_envelope_witness:
  "htmlBody example_parsed = Some ''<i>x</i>''
   \<and> part_value (content (compose_payload example_ambient example_message ''f@z.org'' example_parsed) ! 1)
       = html_head example_ambient example_message @ ''<i>x</i>'' @ html_tail"
proof -
  have h1: "htmlBody example_parsed = Some ''<i>x</i>''" by (simp add: example_parsed_def)
  have h2: "''<i>x</i>'' \<noteq> []" by simp
  show ?thesis
    using h1 html_envelope [OF h1 h2, of example_ambient example_message "''f@z.org''"]
    by simp
qed

section \<open>The handler\<close>

text \<open>
  C8: when the forwarding address is not configured (the variable is undefined, or the
  empty string), the handler answers with status 500 and the configuration message, and
  it has made no call at all: the stream is not read and nothing is sent.
\<close>

theorem missing_configuration:
  "\<not> truthy (FORWARD_TO_EMAIL env) \<Longrightarrow>
   email_handler decode fetch amb message env =
     (\<lparr>resp_status = 500,
       resp_body = ''Configuration error: FORWARD_TO_EMAIL environment variable not set'',
       resp_headers = [(''Content-Type'', ''text/plain'')]\<rparr>, [])"
  by (simp add: email_handler_def config_error_def)

theorem missing_configuration_witness:
  "\<not> truthy (FORWARD_TO_EMAIL \<lparr>FORWARD_TO_EMAIL = None\<rparr>)
   \<and> email_handler decode_ascii fetch_503 example_ambient example_message
       \<lparr>FORWARD_TO_EMAIL = None\<rparr> =
     (\<lparr>resp_status = 500,
       resp_body = ''Configuration error: FORWARD_TO_EMAIL environment variable not set'',
       resp_headers = [(''Content-Type'', ''text/plain'')]\<rparr>, [])"
proof -
  have h: "\<not> truthy (FORWARD_TO_EMAIL \<lparr>FORWARD_TO_EMAIL = None\<rparr>)"
    by (simp add: truthy_def)
  show ?thesis
    using h missing_configuration [OF h, of decode_ascii fetch_503 example_ambient example_message]
    by simp
qed

lemma handler_failure:
  assumes "truthy (FORWARD_TO_EMAIL env)"
    and "forwardEmail decode fetch amb message (the (FORWARD_TO_EMAIL env)) = (Inl (Error msg), evs)"
  shows "email_handler decode fetch amb message env =
     (\<lparr>resp_status = 500, resp_body = ''Email processing failed: '' @ msg,
       resp_headers =
         [(''Content-Type'', ''text/plain''),
          (''X-Session-ID'', sessionId amb),
          (''X-Processing-Time'', show_nat (processingTime amb) @ ''ms''),
          (''X-Error'', ''true'')]\<rparr>, evs)"
  using assms by (simp add: email_handler_def)

text \<open>
  C9: when the forwarding address is configured, the stream is read to its end and the
  send collaborator answers the composed payload with a status outside 200..299 and a
  readable body, \<^verbatim>\<open>forwardEmail\<close> throws an error whose message holds the status and
  the body; the handler answers with status 500 and that message after its own prefix,
  and the payload has been posted exactly once.
\<close>

theorem send_failure:
  assumes "truthy (FORWARD_TO_EMAIL env)"
    and "fst (parseEmailBody decode (raw message)) = Inr parsed"
    and "payload = compose_payload amb message (the (FORWARD_TO_EMAIL env)) parsed"
    and "fetch payload = Responded response"
    and "\<not> ok response"
    and "body_text response = Text_read errorText"
  shows "fst (forwardEmail decode fetch amb message (the (FORWARD_TO_EMAIL env)))
           = Inl (Error (''MailChannels API failed: '' @ show_nat (status response)
                         @ '' - '' @ errorText))
       \<and> resp_status (fst (email_handler decode fetch amb message env)) = 500
       \<and> resp_body (fst (email_handler decode fetch amb message env))
           = ''Email processing failed: MailChannels API failed: ''
             @ show_nat (status response) @ '' - '' @ errorText
       \<and> snd (email_handler decode fetch amb message env)
           = [GetReader, ReleaseLock, Post_request payload]"
proof -
  let ?msg = "''MailChannels API failed: '' @ show_nat (status response) @ '' - '' @ errorText"
  have sent: "send_payload fetch payload = Inl (Error ?msg)"
    using assms(4-6) by (simp add: send_payload_def)
  have fwd: "forwardEmail decode fetch amb message (the (FORWARD_TO_EMAIL env))
      = (Inl (Error ?msg), [GetReader, ReleaseLock, Post_request payload])"
    using forwardEmail_events [OF assms(2), of fetch amb "the (FORWARD_TO_EMAIL env)"] sent assms(3)
    by simp
  show ?thesis
    using handler_failure [OF assms(1) fwd] fwd by simp
qed

theorem send_failure_witness:
  "truthy (FORWARD_TO_EMAIL example_env)
   \<and> resp_status (fst (email_handler decode_ascii fetch_503 example_ambient example_message example_env)) = 500
   \<and> resp_body (fst (email_handler decode_ascii fetch_503 example_ambient example_message example_env))
       = ''Email processing failed: MailChannels API failed: 503 - down''
   \<and> snd (email_handler decode_ascii fetch_503 example_ambient example_message example_env)
       = [GetReader, ReleaseLock,
          Post_request (compose_payload example_ambient example_message ''f@z.org'' plain_hi)]"
proof -
  have h1: "truthy (FORWARD_TO_EMAIL example_env)" by code_simp
  have h2: "fst (parseEmailBody decode_ascii (raw example_message)) = Inr plain_hi" by code_simp
  have h3: "compose_payload example_ambient example_message ''f@z.org'' plain_hi
      = compose_payload example_ambient example_message (the (FORWARD_TO_EMAIL example_env)) plain_hi"
    by (simp add: example_env_def)
  have h4: "fetch_503 (compose_payload example_ambient example_message ''f@z.org'' plain_hi)
      = Responded \<lparr>status = 503, body_text = Text_read ''down''\<rparr>"
    by (simp add: fetch_503_def)
  have h5: "\<not> ok \<lparr>status = 503, body_text = Text_read ''down''\<rparr>" by (simp add: ok_def)
  have h6: "body_text \<lparr>status = 503, body_text = Text_read ''down''\<rparr> = Text_read ''down''"
    by simp
  have n: "show_nat 503 = ''503''" by code_simp
  show ?thesis
    using h1 send_failure [where fetch = fetch_503, OF h1 h2 h3 h4 h5 h6] n by simp
qed


end
